theory Spec2Isabelle
  imports Main "HOL-Library.Word"
begin

unbundle bit_operations_syntax

section \<open>The capability flags of a strong type\<close>

text \<open>
  \<^verbatim>\<open>enum struct strong_type_skill\<close> (strong_type.hpp) has no explicit underlying type, so
  its values are 32-bit integers; a flag set is any such value, since the enumeration takes part
  in the bitwise operators. The enumerators are constants of that type, written here with the
  scope as a prefix: \<^verbatim>\<open>strong_type_skill::add\<close> is \<open>skill_add\<close>. Their values are the
  source's shifts \<^verbatim>\<open>1 << n\<close> and unions.
\<close>

type_synonym strong_type_skill = "32 word"

definition skill_none :: strong_type_skill where "skill_none = 0"
definition skill_add :: strong_type_skill where "skill_add = push_bit 0 1"
definition skill_subtract :: strong_type_skill where "skill_subtract = push_bit 1 1"
definition skill_multiply :: strong_type_skill where "skill_multiply = push_bit 2 1"
definition skill_divide :: strong_type_skill where "skill_divide = push_bit 3 1"
definition skill_modulo :: strong_type_skill where "skill_modulo = push_bit 4 1"
definition skill_bitwise_and :: strong_type_skill where "skill_bitwise_and = push_bit 5 1"
definition skill_bitwise_or :: strong_type_skill where "skill_bitwise_or = push_bit 6 1"
definition skill_bitwise_xor :: strong_type_skill where "skill_bitwise_xor = push_bit 7 1"
definition skill_bitwise_not :: strong_type_skill where "skill_bitwise_not = push_bit 8 1"
definition skill_bitwise_lshift :: strong_type_skill where "skill_bitwise_lshift = push_bit 9 1"
definition skill_bitwise_rshift :: strong_type_skill where "skill_bitwise_rshift = push_bit 10 1"
definition skill_logical_and :: strong_type_skill where "skill_logical_and = push_bit 11 1"
definition skill_logical_or :: strong_type_skill where "skill_logical_or = push_bit 12 1"
definition skill_logical_not :: strong_type_skill where "skill_logical_not = push_bit 13 1"
definition skill_increment :: strong_type_skill where "skill_increment = push_bit 14 1"
definition skill_decrement :: strong_type_skill where "skill_decrement = push_bit 15 1"
definition skill_convert :: strong_type_skill where "skill_convert = push_bit 16 1"
definition skill_comparable :: strong_type_skill where "skill_comparable = push_bit 17 1"

definition skill_additive :: strong_type_skill where
  "skill_additive = skill_add OR skill_subtract"
definition skill_multiplicative :: strong_type_skill where
  "skill_multiplicative = skill_multiply OR skill_divide OR skill_modulo"
definition skill_bitwise_logic :: strong_type_skill where
  "skill_bitwise_logic =
     skill_bitwise_and OR skill_bitwise_or OR skill_bitwise_xor OR skill_bitwise_not"
definition skill_bitwise_shift :: strong_type_skill where
  "skill_bitwise_shift = skill_bitwise_lshift OR skill_bitwise_rshift"
definition skill_logic :: strong_type_skill where
  "skill_logic = skill_logical_and OR skill_logical_or OR skill_logical_not"

text \<open>
  Modelled from the spec: the operator \<^verbatim>\<open>&\<close> on the enumeration comes from
  \<^verbatim>\<open>add_enum_bitwise_operators.hpp\<close>, which is not among the sources. The spec (section 6)
  asks of it the bitwise intersection of two flag sets, here the conjunction of the underlying
  values.
\<close>

definition enum_bitand :: "strong_type_skill \<Rightarrow> strong_type_skill \<Rightarrow> strong_type_skill" where
  "enum_bitand a b = a AND b"

subsection \<open>The operator members and their requires-clauses\<close>

text \<open>
  One constructor for each operator member of \<^verbatim>\<open>class strong_type\<close>, in the order of the
  source. The two shift operators come in two forms: with a strong-typed right operand
  (\<open>op_lshift\<close>, \<open>op_rshift\<close>) and, as a template over \<^verbatim>\<open>std::integral\<close> types, with a plain
  integral right operand (\<open>op_lshift_integral\<close>, \<open>op_rshift_integral\<close>).
\<close>

datatype operator_member =
    op_plus | op_minus
  | op_times | op_divide | op_modulo
  | op_bit_and | op_bit_or | op_bit_xor | op_bit_not
  | op_lshift | op_lshift_integral | op_rshift | op_rshift_integral
  | op_logical_and | op_logical_or | op_logical_not
  | op_pre_increment | op_post_increment | op_pre_decrement | op_post_decrement
  | op_equal | op_not_equal
  | op_convert

text \<open>The enumerator that the member's requires-clause names.\<close>

fun requires_skill :: "operator_member \<Rightarrow> strong_type_skill" where
  "requires_skill op_plus = skill_add"
| "requires_skill op_minus = skill_subtract"
| "requires_skill op_times = skill_multiply"
| "requires_skill op_divide = skill_divide"
| "requires_skill op_modulo = skill_modulo"
| "requires_skill op_bit_and = skill_bitwise_and"
| "requires_skill op_bit_or = skill_bitwise_or"
| "requires_skill op_bit_xor = skill_bitwise_xor"
| "requires_skill op_bit_not = skill_bitwise_not"
| "requires_skill op_lshift = skill_bitwise_lshift"
| "requires_skill op_lshift_integral = skill_bitwise_lshift"
| "requires_skill op_rshift = skill_bitwise_rshift"
| "requires_skill op_rshift_integral = skill_bitwise_rshift"
| "requires_skill op_logical_and = skill_logical_and"
| "requires_skill op_logical_or = skill_logical_or"
| "requires_skill op_logical_not = skill_logical_not"
| "requires_skill op_pre_increment = skill_increment"
| "requires_skill op_post_increment = skill_increment"
| "requires_skill op_pre_decrement = skill_decrement"
| "requires_skill op_post_decrement = skill_decrement"
| "requires_skill op_equal = skill_comparable"
| "requires_skill op_not_equal = skill_comparable"
| "requires_skill op_convert = skill_convert"

text \<open>
  \<^verbatim>\<open>requires ((skills & strong_type_skill::X) != strong_type_skill::none)\<close>: the member
  takes part in overload resolution exactly when this holds.
\<close>

definition requires_clause :: "strong_type_skill \<Rightarrow> operator_member \<Rightarrow> bool" where
  "requires_clause skills m = (enum_bitand skills (requires_skill m) \<noteq> skill_none)"

subsection \<open>The operator families of the specification\<close>

text \<open>
  The eighteen operator families the specification lists (section 3), the family each operator
  member belongs to, and the position of the family's bit in a flag set.
\<close>

datatype operator_family =
    family_add | family_subtract | family_multiply | family_divide | family_modulo
  | family_bitwise_and | family_bitwise_or | family_bitwise_xor | family_bitwise_not
  | family_bitwise_lshift | family_bitwise_rshift
  | family_logical_and | family_logical_or | family_logical_not
  | family_increment | family_decrement | family_convert | family_comparable

fun family_of :: "operator_member \<Rightarrow> operator_family" where
  "family_of op_plus = family_add"
| "family_of op_minus = family_subtract"
| "family_of op_times = family_multiply"
| "family_of op_divide = family_divide"
| "family_of op_modulo = family_modulo"
| "family_of op_bit_and = family_bitwise_and"
| "family_of op_bit_or = family_bitwise_or"
| "family_of op_bit_xor = family_bitwise_xor"
| "family_of op_bit_not = family_bitwise_not"
| "family_of op_lshift = family_bitwise_lshift"
| "family_of op_lshift_integral = family_bitwise_lshift"
| "family_of op_rshift = family_bitwise_rshift"
| "family_of op_rshift_integral = family_bitwise_rshift"
| "family_of op_logical_and = family_logical_and"
| "family_of op_logical_or = family_logical_or"
| "family_of op_logical_not = family_logical_not"
| "family_of op_pre_increment = family_increment"
| "family_of op_post_increment = family_increment"
| "family_of op_pre_decrement = family_decrement"
| "family_of op_post_decrement = family_decrement"
| "family_of op_equal = family_comparable"
| "family_of op_not_equal = family_comparable"
| "family_of op_convert = family_convert"

fun family_bit :: "operator_family \<Rightarrow> nat" where
  "family_bit family_add = 0"
| "family_bit family_subtract = 1"
| "family_bit family_multiply = 2"
| "family_bit family_divide = 3"
| "family_bit family_modulo = 4"
| "family_bit family_bitwise_and = 5"
| "family_bit family_bitwise_or = 6"
| "family_bit family_bitwise_xor = 7"
| "family_bit family_bitwise_not = 8"
| "family_bit family_bitwise_lshift = 9"
| "family_bit family_bitwise_rshift = 10"
| "family_bit family_logical_and = 11"
| "family_bit family_logical_or = 12"
| "family_bit family_logical_not = 13"
| "family_bit family_increment = 14"
| "family_bit family_decrement = 15"
| "family_bit family_convert = 16"
| "family_bit family_comparable = 17"

section \<open>The strong type\<close>

text \<open>
  \<^verbatim>\<open>class strong_type<value_t, derived_t, skills_>\<close> holds one private member
  \<^verbatim>\<open>value_t value\<close>. The underlying type is the type variable \<open>'v\<close>; the flag set is an
  argument of every gated member.
\<close>

record 'v strong_type =
  value_m :: 'v

text \<open>\<^verbatim>\<open>constexpr explicit strong_type(value_t _value) : value(std::move(_value))\<close>\<close>

definition strong_type_ctor :: "'v \<Rightarrow> 'v strong_type" where
  "strong_type_ctor v = \<lparr>value_m = v\<rparr>"

text \<open>
  The four overloads of \<^verbatim>\<open>get()\<close>, one for each value category of the object. Each returns
  a reference to the member (\<^verbatim>\<open>std::move\<close> is a cast); the model returns the state of the
  object after the call and the value seen through the reference.
\<close>

definition get_lvalue :: "'v strong_type \<Rightarrow> 'v strong_type \<times> 'v" where
  "get_lvalue this = (this, value_m this)"

definition get_const_lvalue :: "'v strong_type \<Rightarrow> 'v strong_type \<times> 'v" where
  "get_const_lvalue this = (this, value_m this)"

definition get_rvalue :: "'v strong_type \<Rightarrow> 'v strong_type \<times> 'v" where
  "get_rvalue this = (this, value_m this)"

definition get_const_rvalue :: "'v strong_type \<Rightarrow> 'v strong_type \<times> 'v" where
  "get_const_rvalue this = (this, value_m this)"

text \<open>Reading the held value, as the operator bodies do with \<^verbatim>\<open>get()\<close>.\<close>

definition get :: "'v strong_type \<Rightarrow> 'v" where
  "get this = snd (get_const_lvalue this)"

text \<open>
  \<^verbatim>\<open>derived_t{v}\<close>: the derived class inherits the constructor from a value
  (\<^verbatim>\<open>using strong_type::strong_type\<close>, as in the documented usage) and adds no state.
\<close>

definition derived_t :: "'v \<Rightarrow> 'v strong_type" where
  "derived_t v = strong_type_ctor v"

subsection \<open>Outcomes of a member call\<close>

text \<open>
  A call of a member whose requires-clause fails does not compile: \<open>constraint_not_satisfied\<close>.
  The operators of the underlying type are arguments of the model, of type
  \<open>'v \<Rightarrow> 'v \<Rightarrow> 'v option\<close> and the like: \<open>None\<close> where the underlying type leaves the
  operation without a value (division by zero, signed overflow, a shift by the width or more),
  and then the strong type's operator has none either: \<open>undefined_operation\<close>. They are
  functions of the operand values with a result of the underlying type, as the operators of
  the unsigned and wider built-in integer types are.
  A non-const member returns the state of \<^verbatim>\<open>*this\<close> after the call beside its result.
\<close>

datatype error = constraint_not_satisfied | static_assertion_failed | undefined_operation

definition gated :: "strong_type_skill \<Rightarrow> operator_member \<Rightarrow> error + 'a \<Rightarrow> error + 'a" where
  "gated skills m body = (if requires_clause skills m then body else Inl constraint_not_satisfied)"

text \<open>\<^verbatim>\<open>return derived_t{r};\<close> with \<^verbatim>\<open>*this\<close> untouched.\<close>

definition return_derived ::
  "'v strong_type \<Rightarrow> 'v option \<Rightarrow> error + ('v strong_type \<times> 'v strong_type)" where
  "return_derived this r =
     (case r of None \<Rightarrow> Inl undefined_operation | Some v \<Rightarrow> Inr (this, derived_t v))"

subsection \<open>Arithmetic, bitwise and shift operators\<close>

type_synonym 'v binary_operator = "'v \<Rightarrow> 'v \<Rightarrow> 'v option"

definition operator_plus ::
  "strong_type_skill \<Rightarrow> 'v binary_operator \<Rightarrow> 'v strong_type \<Rightarrow> 'v strong_type
     \<Rightarrow> error + ('v strong_type \<times> 'v strong_type)" where
  "operator_plus skills v_plus this other =
     gated skills op_plus (return_derived this (v_plus (get this) (get other)))"

definition operator_minus ::
  "strong_type_skill \<Rightarrow> 'v binary_operator \<Rightarrow> 'v strong_type \<Rightarrow> 'v strong_type
     \<Rightarrow> error + ('v strong_type \<times> 'v strong_type)" where
  "operator_minus skills v_minus this other =
     gated skills op_minus (return_derived this (v_minus (get this) (get other)))"

definition operator_times ::
  "strong_type_skill \<Rightarrow> 'v binary_operator \<Rightarrow> 'v strong_type \<Rightarrow> 'v strong_type
     \<Rightarrow> error + ('v strong_type \<times> 'v strong_type)" where
  "operator_times skills v_times this other =
     gated skills op_times (return_derived this (v_times (get this) (get other)))"

definition operator_divide ::
  "strong_type_skill \<Rightarrow> 'v binary_operator \<Rightarrow> 'v strong_type \<Rightarrow> 'v strong_type
     \<Rightarrow> error + ('v strong_type \<times> 'v strong_type)" where
  "operator_divide skills v_divide this other =
     gated skills op_divide (return_derived this (v_divide (get this) (get other)))"

definition operator_modulo ::
  "strong_type_skill \<Rightarrow> 'v binary_operator \<Rightarrow> 'v strong_type \<Rightarrow> 'v strong_type
     \<Rightarrow> error + ('v strong_type \<times> 'v strong_type)" where
  "operator_modulo skills v_modulo this other =
     gated skills op_modulo (return_derived this (v_modulo (get this) (get other)))"

definition operator_bit_and ::
  "strong_type_skill \<Rightarrow> 'v binary_operator \<Rightarrow> 'v strong_type \<Rightarrow> 'v strong_type
     \<Rightarrow> error + ('v strong_type \<times> 'v strong_type)" where
  "operator_bit_and skills v_bit_and this other =
     gated skills op_bit_and (return_derived this (v_bit_and (get this) (get other)))"

definition operator_bit_or ::
  "strong_type_skill \<Rightarrow> 'v binary_operator \<Rightarrow> 'v strong_type \<Rightarrow> 'v strong_type
     \<Rightarrow> error + ('v strong_type \<times> 'v strong_type)" where
  "operator_bit_or skills v_bit_or this other =
     gated skills op_bit_or (return_derived this (v_bit_or (get this) (get other)))"

definition operator_bit_xor ::
  "strong_type_skill \<Rightarrow> 'v binary_operator \<Rightarrow> 'v strong_type \<Rightarrow> 'v strong_type
     \<Rightarrow> error + ('v strong_type \<times> 'v strong_type)" where
  "operator_bit_xor skills v_bit_xor this other =
     gated skills op_bit_xor (return_derived this (v_bit_xor (get this) (get other)))"

definition operator_bit_not ::
  "strong_type_skill \<Rightarrow> ('v \<Rightarrow> 'v option) \<Rightarrow> 'v strong_type
     \<Rightarrow> error + ('v strong_type \<times> 'v strong_type)" where
  "operator_bit_not skills v_bit_not this =
     gated skills op_bit_not (return_derived this (v_bit_not (get this)))"

definition operator_lshift ::
  "strong_type_skill \<Rightarrow> 'v binary_operator \<Rightarrow> 'v strong_type \<Rightarrow> 'v strong_type
     \<Rightarrow> error + ('v strong_type \<times> 'v strong_type)" where
  "operator_lshift skills v_lshift this other =
     gated skills op_lshift (return_derived this (v_lshift (get this) (get other)))"

text \<open>The right operand \<^verbatim>\<open>integral_t const shift\<close> is a plain integer of any integral type.\<close>

definition operator_lshift_integral ::
  "strong_type_skill \<Rightarrow> ('v \<Rightarrow> int \<Rightarrow> 'v option) \<Rightarrow> 'v strong_type \<Rightarrow> int
     \<Rightarrow> error + ('v strong_type \<times> 'v strong_type)" where
  "operator_lshift_integral skills v_lshift_int this shift =
     gated skills op_lshift_integral (return_derived this (v_lshift_int (get this) shift))"

definition operator_rshift ::
  "strong_type_skill \<Rightarrow> 'v binary_operator \<Rightarrow> 'v strong_type \<Rightarrow> 'v strong_type
     \<Rightarrow> error + ('v strong_type \<times> 'v strong_type)" where
  "operator_rshift skills v_rshift this other =
     gated skills op_rshift (return_derived this (v_rshift (get this) (get other)))"

definition operator_rshift_integral ::
  "strong_type_skill \<Rightarrow> ('v \<Rightarrow> int \<Rightarrow> 'v option) \<Rightarrow> 'v strong_type \<Rightarrow> int
     \<Rightarrow> error + ('v strong_type \<times> 'v strong_type)" where
  "operator_rshift_integral skills v_rshift_int this shift =
     gated skills op_rshift_integral (return_derived this (v_rshift_int (get this) shift))"

subsection \<open>Logical operators\<close>

text \<open>
  \<^verbatim>\<open>return get() && other.get();\<close> and its siblings return \<^verbatim>\<open>bool\<close>. The underlying
  operators are arguments here as well.
\<close>

definition operator_logical_and ::
  "strong_type_skill \<Rightarrow> ('v \<Rightarrow> 'v \<Rightarrow> bool) \<Rightarrow> 'v strong_type \<Rightarrow> 'v strong_type
     \<Rightarrow> error + ('v strong_type \<times> bool)" where
  "operator_logical_and skills v_logical_and this other =
     gated skills op_logical_and (Inr (this, v_logical_and (get this) (get other)))"

definition operator_logical_or ::
  "strong_type_skill \<Rightarrow> ('v \<Rightarrow> 'v \<Rightarrow> bool) \<Rightarrow> 'v strong_type \<Rightarrow> 'v strong_type
     \<Rightarrow> error + ('v strong_type \<times> bool)" where
  "operator_logical_or skills v_logical_or this other =
     gated skills op_logical_or (Inr (this, v_logical_or (get this) (get other)))"

definition operator_logical_not ::
  "strong_type_skill \<Rightarrow> ('v \<Rightarrow> bool) \<Rightarrow> 'v strong_type \<Rightarrow> error + ('v strong_type \<times> bool)" where
  "operator_logical_not skills v_logical_not this =
     gated skills op_logical_not (Inr (this, v_logical_not (get this)))"

subsection \<open>Increment and decrement\<close>

text \<open>
  The prefix forms return \<^verbatim>\<open>static_cast<derived_t &>(*this)\<close>: a reference to the object
  itself. \<open>deref\<close> reads the object such a reference denotes, in a given state of
  \<^verbatim>\<open>*this\<close>.
\<close>

datatype reference = reference_to_this

fun deref :: "'v strong_type \<Rightarrow> reference \<Rightarrow> 'v strong_type" where
  "deref this reference_to_this = this"

definition operator_pre_increment ::
  "strong_type_skill \<Rightarrow> ('v \<Rightarrow> 'v option) \<Rightarrow> 'v strong_type
     \<Rightarrow> error + ('v strong_type \<times> reference)" where
  "operator_pre_increment skills v_increment this =
     gated skills op_pre_increment
       (case v_increment (get this) of
          None \<Rightarrow> Inl undefined_operation
        | Some v \<Rightarrow> Inr (this\<lparr>value_m := v\<rparr>, reference_to_this))"

definition operator_post_increment ::
  "strong_type_skill \<Rightarrow> ('v \<Rightarrow> 'v option) \<Rightarrow> 'v strong_type
     \<Rightarrow> error + ('v strong_type \<times> 'v strong_type)" where
  "operator_post_increment skills v_increment this =
     gated skills op_post_increment
       (let tmp = derived_t (get this) in
        case v_increment (get this) of
          None \<Rightarrow> Inl undefined_operation
        | Some v \<Rightarrow> Inr (this\<lparr>value_m := v\<rparr>, tmp))"

definition operator_pre_decrement ::
  "strong_type_skill \<Rightarrow> ('v \<Rightarrow> 'v option) \<Rightarrow> 'v strong_type
     \<Rightarrow> error + ('v strong_type \<times> reference)" where
  "operator_pre_decrement skills v_decrement this =
     gated skills op_pre_decrement
       (case v_decrement (get this) of
          None \<Rightarrow> Inl undefined_operation
        | Some v \<Rightarrow> Inr (this\<lparr>value_m := v\<rparr>, reference_to_this))"

definition operator_post_decrement ::
  "strong_type_skill \<Rightarrow> ('v \<Rightarrow> 'v option) \<Rightarrow> 'v strong_type
     \<Rightarrow> error + ('v strong_type \<times> 'v strong_type)" where
  "operator_post_decrement skills v_decrement this =
     gated skills op_post_decrement
       (let tmp = derived_t (get this) in
        case v_decrement (get this) of
          None \<Rightarrow> Inl undefined_operation
        | Some v \<Rightarrow> Inr (this\<lparr>value_m := v\<rparr>, tmp))"

subsection \<open>Comparison and conversion\<close>

text \<open>
  These three are const members: they cannot change \<^verbatim>\<open>*this\<close> and return the result alone.
  \<^verbatim>\<open>operator!=\<close> is \<^verbatim>\<open>!(*this == rhs)\<close>.
\<close>

definition operator_equal ::
  "strong_type_skill \<Rightarrow> ('v \<Rightarrow> 'v \<Rightarrow> bool) \<Rightarrow> 'v strong_type \<Rightarrow> 'v strong_type
     \<Rightarrow> error + bool" where
  "operator_equal skills v_equal this rhs =
     gated skills op_equal (Inr (v_equal (get this) (get rhs)))"

definition operator_not_equal ::
  "strong_type_skill \<Rightarrow> ('v \<Rightarrow> 'v \<Rightarrow> bool) \<Rightarrow> 'v strong_type \<Rightarrow> 'v strong_type
     \<Rightarrow> error + bool" where
  "operator_not_equal skills v_equal this rhs =
     gated skills op_not_equal
       (case operator_equal skills v_equal this rhs of
          Inl e \<Rightarrow> Inl e
        | Inr b \<Rightarrow> Inr (\<not> b))"

definition operator_value_t :: "strong_type_skill \<Rightarrow> 'v strong_type \<Rightarrow> error + 'v" where
  "operator_value_t skills this = gated skills op_convert (Inr (get this))"

subsection \<open>Two underlying types\<close>

text \<open>
  \<^verbatim>\<open>uint32_t\<close>: addition, subtraction, multiplication, increment and decrement wrap around;
  division and remainder by zero and shifts by 32 or more (or by a negative amount) are
  undefined; a value converts to \<^verbatim>\<open>bool\<close> as "not zero".
\<close>

type_synonym uint32_t = "32 word"

definition uint32_plus :: "uint32_t binary_operator" where
  "uint32_plus a b = Some (a + b)"
definition uint32_minus :: "uint32_t binary_operator" where
  "uint32_minus a b = Some (a - b)"
definition uint32_times :: "uint32_t binary_operator" where
  "uint32_times a b = Some (a * b)"
definition uint32_divide :: "uint32_t binary_operator" where
  "uint32_divide a b = (if b = 0 then None else Some (a div b))"
definition uint32_modulo :: "uint32_t binary_operator" where
  "uint32_modulo a b = (if b = 0 then None else Some (a mod b))"
definition uint32_bit_and :: "uint32_t binary_operator" where
  "uint32_bit_and a b = Some (a AND b)"
definition uint32_bit_or :: "uint32_t binary_operator" where
  "uint32_bit_or a b = Some (a OR b)"
definition uint32_bit_xor :: "uint32_t binary_operator" where
  "uint32_bit_xor a b = Some (a XOR b)"
definition uint32_bit_not :: "uint32_t \<Rightarrow> uint32_t option" where
  "uint32_bit_not a = Some (NOT a)"
definition uint32_lshift_integral :: "uint32_t \<Rightarrow> int \<Rightarrow> uint32_t option" where
  "uint32_lshift_integral a n = (if 0 \<le> n \<and> n < 32 then Some (push_bit (nat n) a) else None)"
definition uint32_rshift_integral :: "uint32_t \<Rightarrow> int \<Rightarrow> uint32_t option" where
  "uint32_rshift_integral a n = (if 0 \<le> n \<and> n < 32 then Some (drop_bit (nat n) a) else None)"
definition uint32_lshift :: "uint32_t binary_operator" where
  "uint32_lshift a b = uint32_lshift_integral a (uint b)"
definition uint32_rshift :: "uint32_t binary_operator" where
  "uint32_rshift a b = uint32_rshift_integral a (uint b)"
definition uint32_logical_and :: "uint32_t \<Rightarrow> uint32_t \<Rightarrow> bool" where
  "uint32_logical_and a b = (a \<noteq> 0 \<and> b \<noteq> 0)"
definition uint32_logical_or :: "uint32_t \<Rightarrow> uint32_t \<Rightarrow> bool" where
  "uint32_logical_or a b = (a \<noteq> 0 \<or> b \<noteq> 0)"
definition uint32_logical_not :: "uint32_t \<Rightarrow> bool" where
  "uint32_logical_not a = (a = 0)"
definition uint32_increment :: "uint32_t \<Rightarrow> uint32_t option" where
  "uint32_increment a = Some (a + 1)"
definition uint32_decrement :: "uint32_t \<Rightarrow> uint32_t option" where
  "uint32_decrement a = Some (a - 1)"
definition uint32_equal :: "uint32_t \<Rightarrow> uint32_t \<Rightarrow> bool" where
  "uint32_equal a b = (a = b)"

text \<open>
  \<^verbatim>\<open>double\<close>, as far as its comparison goes: a value is a number or not-a-number, and
  \<^verbatim>\<open>==\<close> is false as soon as one side is not-a-number (numbers are kept to the integral
  ones here; nothing below computes with them).
\<close>

datatype double_t = double_nan | double_number int

fun double_equal :: "double_t \<Rightarrow> double_t \<Rightarrow> bool" where
  "double_equal (double_number x) (double_number y) = (x = y)"
| "double_equal _ _ = False"

section \<open>Fields and records\<close>

subsection \<open>The enumeration of fields\<close>

text \<open>
  \<^verbatim>\<open>enum class field\<close> (record.hpp), the enumerators in the order of the source and with the
  scope as a prefix: \<^verbatim>\<open>field::seq\<close> is \<open>field_seq\<close>.
\<close>

datatype field =
    field_seq | field_id | field_qual | field_offset
  | field_bpp | field_structure | field_structured_seq | field_energy | field_react
  | field_react_err | field_comment
  | field_alignment | field_ref_id | field_ref_seq | field_ref_offset | field_header_ptr
  | field_flag | field_mate | field_mapq | field_cigar | field_tags
  | field_bit_score | field_evalue
  | field_user_defined_0 | field_user_defined_1 | field_user_defined_2 | field_user_defined_3
  | field_user_defined_4 | field_user_defined_5 | field_user_defined_6 | field_user_defined_7
  | field_user_defined_8 | field_user_defined_9

subsection \<open>The tag list \<^verbatim>\<open>fields<fs...>\<close>\<close>

text \<open>
  The parameter pack is the list \<open>as_array\<close>; every static member takes it as its first
  argument and nothing else of the type. Indices are \<^verbatim>\<open>size_t\<close>, natural numbers below
  \<open>2 ^ 64\<close>; \<^verbatim>\<open>sizeof...(fs)\<close> is one of them, so a pack has at most \<open>npos\<close> elements and
  no index of the loops below wraps around.
\<close>

definition npos :: nat where
  "npos = 2 ^ 64 - 1"

text \<open>
  \<^verbatim>\<open>for (size_t i = 0; i < sizeof...(fs); ++i) if (as_array[i] == f) return i; return npos;\<close>
\<close>

function index_of_loop :: "field list \<Rightarrow> field \<Rightarrow> nat \<Rightarrow> nat" where
  "index_of_loop as_array f i =
     (if i < length as_array
      then (if as_array ! i = f then i else index_of_loop as_array f (Suc i))
      else npos)"
  by pat_completeness auto
termination
  by (relation "measure (\<lambda>(as_array, f, i). length as_array - i)") auto

definition index_of :: "field list \<Rightarrow> field \<Rightarrow> nat" where
  "index_of as_array f = index_of_loop as_array f 0"

definition contains :: "field list \<Rightarrow> field \<Rightarrow> bool" where
  "contains as_array f = (index_of as_array f \<noteq> npos)"

text \<open>
  The predicate of the static assertion of \<^verbatim>\<open>fields\<close>: two nested loops, the inner one from
  \<open>i + 1\<close>; \<^verbatim>\<open>return false\<close> in the inner loop leaves the whole predicate.
\<close>

function no_duplicate_inner :: "field list \<Rightarrow> nat \<Rightarrow> nat \<Rightarrow> bool" where
  "no_duplicate_inner as_array i j =
     (if j < length as_array
      then (if as_array ! i = as_array ! j then False
            else no_duplicate_inner as_array i (Suc j))
      else True)"
  by pat_completeness auto
termination
  by (relation "measure (\<lambda>(as_array, i, j). length as_array - j)") auto

function no_duplicate_outer :: "field list \<Rightarrow> nat \<Rightarrow> bool" where
  "no_duplicate_outer as_array i =
     (if i < length as_array
      then (if no_duplicate_inner as_array i (i + 1)
            then no_duplicate_outer as_array (Suc i)
            else False)
      else True)"
  by pat_completeness auto
termination
  by (relation "measure (\<lambda>(as_array, i). length as_array - i)") auto

definition fields_static_assert :: "field list \<Rightarrow> bool" where
  "fields_static_assert as_array = no_duplicate_outer as_array 0"

subsection \<open>The record\<close>

text \<open>
  \<^verbatim>\<open>record<field_types, field_ids>\<close> is a \<^verbatim>\<open>std::tuple\<close> of the types in
  \<open>field_types\<close>: a list of values, one for each type. What \<^verbatim>\<open>clear()\<close> needs to know of
  an element type is whether \<^verbatim>\<open>v.clear()\<close> is a valid expression, what it does to \<open>v\<close> when
  it is, and the value \<^verbatim>\<open>t{}\<close> when it is not.
\<close>

datatype 'v element_type =
    with_clear "'v \<Rightarrow> 'v"
  | without_clear 'v

text \<open>
  The two overloads of \<^verbatim>\<open>clear_element\<close>. Both are viable for a type with a member
  \<^verbatim>\<open>clear()\<close>, and the constrained one is the better match; for any other type only the
  unconstrained one is viable. The function returns the overload it ran and the element after
  the call.
\<close>

datatype clear_overload = member_clear | assign_default

fun clear_element :: "'v element_type \<Rightarrow> 'v \<Rightarrow> clear_overload \<times> 'v" where
  "clear_element (with_clear v_clear) v = (member_clear, v_clear v)"
| "clear_element (without_clear v_default) v = (assign_default, v_default)"

text \<open>
  \<^verbatim>\<open>(clear_element(args), ...)\<close> over the elements of the tuple, from the first to the last.
  A tuple has as many elements as types; where the lists differ in length the model stops at
  the shorter.
\<close>

fun expander :: "'v element_type list \<Rightarrow> 'v list \<Rightarrow> (clear_overload \<times> 'v) list" where
  "expander (t # ts) (v # vs) = clear_element t v # expander ts vs"
| "expander _ _ = []"

definition clear :: "'v element_type list \<Rightarrow> 'v list \<Rightarrow> 'v list" where
  "clear field_types this = map snd (expander field_types this)"

definition clear_overloads :: "'v element_type list \<Rightarrow> 'v list \<Rightarrow> clear_overload list" where
  "clear_overloads field_types this = map fst (expander field_types this)"

text \<open>The static assertion of \<^verbatim>\<open>record\<close>: as many IDs as types.\<close>

definition record_static_assert :: "'v element_type list \<Rightarrow> field list \<Rightarrow> bool" where
  "record_static_assert field_types field_ids = (length field_types = length field_ids)"

text \<open>\<^verbatim>\<open>std::get<I>(tuple)\<close> does not compile for an index that is not below the tuple's size.\<close>

definition std_get :: "nat \<Rightarrow> 'v list \<Rightarrow> error + 'v" where
  "std_get i record_as_tuple =
     (if i < length record_as_tuple then Inr (record_as_tuple ! i)
      else Inl static_assertion_failed)"

definition get_impl :: "field list \<Rightarrow> field \<Rightarrow> 'v list \<Rightarrow> error + 'v" where
  "get_impl field_ids f record_as_tuple =
     (if contains field_ids f then std_get (index_of field_ids f) record_as_tuple
      else Inl static_assertion_failed)"

text \<open>
  \<^verbatim>\<open>get_impl\<close> on a non-const record returns a reference to the element; assigning through it
  replaces the element at the same position.
\<close>

definition get_impl_assign :: "field list \<Rightarrow> field \<Rightarrow> 'v \<Rightarrow> 'v list \<Rightarrow> error + 'v list" where
  "get_impl_assign field_ids f v record_as_tuple =
     (if contains field_ids f
      then (if index_of field_ids f < length record_as_tuple
            then Inr (record_as_tuple[index_of field_ids f := v])
            else Inl static_assertion_failed)
      else Inl static_assertion_failed)"

text \<open>A sequence of writes by tag, stopping at the first that does not compile.\<close>

fun write_fields :: "field list \<Rightarrow> (field \<times> 'v) list \<Rightarrow> 'v list \<Rightarrow> error + 'v list" where
  "write_fields field_ids [] record_as_tuple = Inr record_as_tuple"
| "write_fields field_ids ((f, v) # ws) record_as_tuple =
     (case get_impl_assign field_ids f v record_as_tuple of
        Inl e \<Rightarrow> Inl e
      | Inr r \<Rightarrow> write_fields field_ids ws r)"

subsection \<open>Element types for the examples\<close>

text \<open>
  Values of three element types: a container (\<^verbatim>\<open>std::vector<int>\<close>, whose \<^verbatim>\<open>clear()\<close>
  leaves it empty), a scalar (\<^verbatim>\<open>int\<close>, with no member and \<^verbatim>\<open>int{}\<close> zero), and a buffer
  that counts how often it was cleared: its \<^verbatim>\<open>clear()\<close> empties the data and adds one to the
  count, while its default value has count zero.
\<close>

datatype element = container "int list" | scalar int | counting_buffer nat "int list"

definition vector_type :: "element element_type" where
  "vector_type = with_clear (\<lambda>v. container [])"

definition int_type :: "element element_type" where
  "int_type = without_clear (scalar 0)"

fun counting_buffer_clear :: "element \<Rightarrow> element" where
  "counting_buffer_clear (counting_buffer n xs) = counting_buffer (Suc n) []"
| "counting_buffer_clear v = v"

definition counting_buffer_default :: element where
  "counting_buffer_default = counting_buffer 0 []"

definition counting_buffer_type :: "element element_type" where
  "counting_buffer_type = with_clear counting_buffer_clear"

section \<open>Values for the examples\<close>

text \<open>A flag set with every skill, and two strong-typed values over \<^verbatim>\<open>uint32_t\<close>.\<close>

definition all_skills :: strong_type_skill where
  "all_skills = skill_additive OR skill_multiplicative OR skill_bitwise_logic
     OR skill_bitwise_shift OR skill_logic OR skill_increment OR skill_decrement
     OR skill_convert OR skill_comparable"

definition twelve :: "uint32_t strong_type" where
  "twelve = strong_type_ctor 12"

definition five :: "uint32_t strong_type" where
  "five = strong_type_ctor 5"

section \<open>Properties of the strong type\<close>

subsection \<open>Gating\<close>

lemmas skill_defs =
  skill_add_def skill_subtract_def skill_multiply_def skill_divide_def skill_modulo_def
  skill_bitwise_and_def skill_bitwise_or_def skill_bitwise_xor_def skill_bitwise_not_def
  skill_bitwise_lshift_def skill_bitwise_rshift_def skill_logical_and_def skill_logical_or_def
  skill_logical_not_def skill_increment_def skill_decrement_def skill_convert_def
  skill_comparable_def

lemma requires_skill_single_bit:
  "requires_skill m = push_bit (family_bit (family_of m)) 1"
  by (cases m) (simp_all add: skill_defs)

lemma requires_clause_iff_bit:
  "requires_clause skills m \<longleftrightarrow> bit skills (family_bit (family_of m))"
  unfolding requires_clause_def enum_bitand_def skill_none_def requires_skill_single_bit
  by (rule bit_iff_and_push_bit_not_eq_0 [symmetric])

lemma family_bit_inj: "family_bit f = family_bit g \<longleftrightarrow> f = g"
  by (cases f; cases g) simp_all

text \<open>
  Claim C1. For every flag set and every operator member: the member's requires-clause holds
  if and only if the bit of the member's operator family is set in the flag set, the
  enumerator the clause names is that single bit, and a gated body is reached exactly when
  the bit is set. For each of the 23 operator members of the strong type, and for all
  operands and underlying operators, the call is rejected for want of the operator exactly
  when the bit of its family is absent from the flag set; the two forms of each shift operator
  (strong-typed and plain integral right operand) answer to the same bit.
\<close>

theorem strong_type_operator_enabled_iff_bit:
  "(requires_clause skills m \<longleftrightarrow> bit skills (family_bit (family_of m)))
   \<and> requires_skill m = push_bit (family_bit (family_of m)) 1
   \<and> (requires_clause skills op_lshift \<longleftrightarrow> requires_clause skills op_lshift_integral)
   \<and> (requires_clause skills op_rshift \<longleftrightarrow> requires_clause skills op_rshift_integral)
   \<and> (gated skills m (Inr r) = Inr r \<longleftrightarrow> bit skills (family_bit (family_of m)))
   \<and> (operator_plus skills v_plus a b = Inl constraint_not_satisfied
      \<longleftrightarrow> \<not> bit skills (family_bit family_add))
   \<and> (operator_minus skills v_minus a b = Inl constraint_not_satisfied
      \<longleftrightarrow> \<not> bit skills (family_bit family_subtract))
   \<and> (operator_times skills v_times a b = Inl constraint_not_satisfied
      \<longleftrightarrow> \<not> bit skills (family_bit family_multiply))
   \<and> (operator_divide skills v_divide a b = Inl constraint_not_satisfied
      \<longleftrightarrow> \<not> bit skills (family_bit family_divide))
   \<and> (operator_modulo skills v_modulo a b = Inl constraint_not_satisfied
      \<longleftrightarrow> \<not> bit skills (family_bit family_modulo))
   \<and> (operator_bit_and skills v_bit_and a b = Inl constraint_not_satisfied
      \<longleftrightarrow> \<not> bit skills (family_bit family_bitwise_and))
   \<and> (operator_bit_or skills v_bit_or a b = Inl constraint_not_satisfied
      \<longleftrightarrow> \<not> bit skills (family_bit family_bitwise_or))
   \<and> (operator_bit_xor skills v_bit_xor a b = Inl constraint_not_satisfied
      \<longleftrightarrow> \<not> bit skills (family_bit family_bitwise_xor))
   \<and> (operator_bit_not skills v_bit_not a = Inl constraint_not_satisfied
      \<longleftrightarrow> \<not> bit skills (family_bit family_bitwise_not))
   \<and> (operator_lshift skills v_lshift a b = Inl constraint_not_satisfied
      \<longleftrightarrow> \<not> bit skills (family_bit family_bitwise_lshift))
   \<and> (operator_lshift_integral skills v_lshift_integral a shift = Inl constraint_not_satisfied
      \<longleftrightarrow> \<not> bit skills (family_bit family_bitwise_lshift))
   \<and> (operator_rshift skills v_rshift a b = Inl constraint_not_satisfied
      \<longleftrightarrow> \<not> bit skills (family_bit family_bitwise_rshift))
   \<and> (operator_rshift_integral skills v_rshift_integral a shift = Inl constraint_not_satisfied
      \<longleftrightarrow> \<not> bit skills (family_bit family_bitwise_rshift))
   \<and> (operator_logical_and skills v_logical_and a b = Inl constraint_not_satisfied
      \<longleftrightarrow> \<not> bit skills (family_bit family_logical_and))
   \<and> (operator_logical_or skills v_logical_or a b = Inl constraint_not_satisfied
      \<longleftrightarrow> \<not> bit skills (family_bit family_logical_or))
   \<and> (operator_logical_not skills v_logical_not a = Inl constraint_not_satisfied
      \<longleftrightarrow> \<not> bit skills (family_bit family_logical_not))
   \<and> (operator_pre_increment skills v_increment a = Inl constraint_not_satisfied
      \<longleftrightarrow> \<not> bit skills (family_bit family_increment))
   \<and> (operator_post_increment skills v_increment a = Inl constraint_not_satisfied
      \<longleftrightarrow> \<not> bit skills (family_bit family_increment))
   \<and> (operator_pre_decrement skills v_decrement a = Inl constraint_not_satisfied
      \<longleftrightarrow> \<not> bit skills (family_bit family_decrement))
   \<and> (operator_post_decrement skills v_decrement a = Inl constraint_not_satisfied
      \<longleftrightarrow> \<not> bit skills (family_bit family_decrement))
   \<and> (operator_equal skills v_equal a b = Inl constraint_not_satisfied
      \<longleftrightarrow> \<not> bit skills (family_bit family_comparable))
   \<and> (operator_not_equal skills v_equal a b = Inl constraint_not_satisfied
      \<longleftrightarrow> \<not> bit skills (family_bit family_comparable))
   \<and> (operator_value_t skills a = Inl constraint_not_satisfied
      \<longleftrightarrow> \<not> bit skills (family_bit family_convert))"
  apply (intro conjI)
  apply (simp_all only: requires_clause_iff_bit requires_skill_single_bit family_of.simps)
  apply (simp_all add: operator_plus_def operator_minus_def operator_times_def
      operator_divide_def operator_modulo_def operator_bit_and_def operator_bit_or_def
      operator_bit_xor_def operator_bit_not_def operator_lshift_def
      operator_lshift_integral_def operator_rshift_def operator_rshift_integral_def
      operator_logical_and_def operator_logical_or_def operator_logical_not_def
      operator_pre_increment_def operator_post_increment_def operator_pre_decrement_def
      operator_post_decrement_def operator_equal_def operator_not_equal_def
      operator_value_t_def
      gated_def requires_clause_iff_bit return_derived_def split: option.split)
  done

theorem strong_type_operator_enabled_iff_bit_witness:
  "bit skill_add (family_bit family_add)
   \<and> \<not> bit skill_add (family_bit family_subtract)
   \<and> \<not> bit skill_add (family_bit family_convert)
   \<and> operator_plus skill_add uint32_plus twelve five \<noteq> Inl constraint_not_satisfied
   \<and> operator_minus skill_add uint32_minus twelve five = Inl constraint_not_satisfied
   \<and> operator_value_t skill_add twelve = Inl constraint_not_satisfied"
proof -
  have bits: "bit skill_add (family_bit family_add)"
    "\<not> bit skill_add (family_bit family_subtract)"
    "\<not> bit skill_add (family_bit family_convert)"
    by (simp_all add: skill_add_def bit_push_bit_iff)
  note at_add = strong_type_operator_enabled_iff_bit [where skills=skill_add and m=op_plus and r=True and a=twelve and b=five
      and shift=2 and v_plus=uint32_plus and v_minus=uint32_minus and v_times=uint32_times
      and v_divide=uint32_divide and v_modulo=uint32_modulo and v_bit_and=uint32_bit_and
      and v_bit_or=uint32_bit_or and v_bit_xor=uint32_bit_xor and v_bit_not=uint32_bit_not
      and v_lshift=uint32_lshift and v_lshift_integral=uint32_lshift_integral
      and v_rshift=uint32_rshift and v_rshift_integral=uint32_rshift_integral
      and v_logical_and=uint32_logical_and and v_logical_or=uint32_logical_or
      and v_logical_not=uint32_logical_not and v_increment=uint32_increment
      and v_decrement=uint32_decrement and v_equal=uint32_equal]
  from at_add bits show ?thesis
    by (elim conjE) (intro conjI, simp_all)
qed

lemma requires_clause_all_skills: "requires_clause all_skills m"
  by (cases m)
    (simp_all add: requires_clause_iff_bit all_skills_def skill_additive_def
      skill_multiplicative_def skill_bitwise_logic_def skill_bitwise_shift_def skill_logic_def
      skill_defs bit_or_iff bit_push_bit_iff)

text \<open>A member whose requires-clause fails offers nothing to call.\<close>

lemma gated_enabled: "requires_clause skills m \<Longrightarrow> gated skills m body = body"
  by (simp add: gated_def)

lemma gated_disabled:
  "\<not> requires_clause skills m \<Longrightarrow> gated skills m body = Inl constraint_not_satisfied"
  by (simp add: gated_def)

subsection \<open>Construction and access\<close>

lemma get_simp: "get x = value_m x"
  by (simp add: get_def get_const_lvalue_def)

lemma get_derived_t: "get (derived_t v) = v"
  by (simp add: get_simp derived_t_def strong_type_ctor_def)

text \<open>
  Claim C9. Constructing a strong type from a value and reading it with \<^verbatim>\<open>get()\<close> gives
  that value back, and each of the four overloads of \<^verbatim>\<open>get()\<close> leaves the object as it
  was and yields the held value.
\<close>

theorem strong_type_construct_get:
  "get (strong_type_ctor v) = v
   \<and> get_lvalue x = (x, get x) \<and> get_const_lvalue x = (x, get x)
   \<and> get_rvalue x = (x, get x) \<and> get_const_rvalue x = (x, get x)"
  by (simp add: get_simp strong_type_ctor_def get_lvalue_def get_const_lvalue_def
      get_rvalue_def get_const_rvalue_def)

subsection \<open>Increment and decrement\<close>

text \<open>
  Claim C4. With the increment skill, and where the underlying increment yields a value \<open>v\<close>:
  the postfix form returns an object holding the value from before the call and leaves \<open>v\<close>
  in the operand; the prefix form leaves \<open>v\<close> in the operand and returns a reference to the
  operand, through which \<open>v\<close> is read at once. The same holds for the decrement skill and the
  two decrement forms.
\<close>

theorem strong_type_increment_decrement:
  "(requires_clause skills op_post_increment \<longrightarrow>
      (\<forall>v. v_increment (get x) = Some v \<longrightarrow>
         (\<exists>x' r. operator_post_increment skills v_increment x = Inr (x', r)
            \<and> get r = get x \<and> get x' = v)))
   \<and> (requires_clause skills op_pre_increment \<longrightarrow>
      (\<forall>v. v_increment (get x) = Some v \<longrightarrow>
         (\<exists>x' r. operator_pre_increment skills v_increment x = Inr (x', r)
            \<and> get (deref x' r) = v \<and> get x' = v)))
   \<and> (requires_clause skills op_post_decrement \<longrightarrow>
      (\<forall>v. v_decrement (get x) = Some v \<longrightarrow>
         (\<exists>x' r. operator_post_decrement skills v_decrement x = Inr (x', r)
            \<and> get r = get x \<and> get x' = v)))
   \<and> (requires_clause skills op_pre_decrement \<longrightarrow>
      (\<forall>v. v_decrement (get x) = Some v \<longrightarrow>
         (\<exists>x' r. operator_pre_decrement skills v_decrement x = Inr (x', r)
            \<and> get (deref x' r) = v \<and> get x' = v)))"
  by (simp add: operator_post_increment_def operator_pre_increment_def
      operator_post_decrement_def operator_pre_decrement_def gated_enabled
      get_simp derived_t_def strong_type_ctor_def)

theorem strong_type_increment_decrement_witness:
  "requires_clause (skill_increment OR skill_decrement) op_post_increment
   \<and> requires_clause (skill_increment OR skill_decrement) op_pre_increment
   \<and> requires_clause (skill_increment OR skill_decrement) op_post_decrement
   \<and> requires_clause (skill_increment OR skill_decrement) op_pre_decrement
   \<and> uint32_increment (get (strong_type_ctor 41)) = Some 42
   \<and> uint32_decrement (get (strong_type_ctor 41)) = Some 40
   \<and> (\<exists>x' r. operator_post_increment (skill_increment OR skill_decrement) uint32_increment
                 (strong_type_ctor 41) = Inr (x', r) \<and> get r = 41 \<and> get x' = 42)
   \<and> (\<exists>x' r. operator_pre_increment (skill_increment OR skill_decrement) uint32_increment
                 (strong_type_ctor 41) = Inr (x', r) \<and> get (deref x' r) = 42 \<and> get x' = 42)
   \<and> (\<exists>x' r. operator_post_decrement (skill_increment OR skill_decrement) uint32_decrement
                 (strong_type_ctor 41) = Inr (x', r) \<and> get r = 41 \<and> get x' = 40)
   \<and> (\<exists>x' r. operator_pre_decrement (skill_increment OR skill_decrement) uint32_decrement
                 (strong_type_ctor 41) = Inr (x', r) \<and> get (deref x' r) = 40 \<and> get x' = 40)"
proof -
  have enabled: "requires_clause (skill_increment OR skill_decrement) op_post_increment"
    "requires_clause (skill_increment OR skill_decrement) op_pre_increment"
    "requires_clause (skill_increment OR skill_decrement) op_post_decrement"
    "requires_clause (skill_increment OR skill_decrement) op_pre_decrement"
    by (simp_all add: requires_clause_iff_bit skill_increment_def skill_decrement_def
        bit_or_iff bit_push_bit_iff)
  have held: "get (strong_type_ctor (41 :: uint32_t)) = 41"
    by (simp add: get_simp strong_type_ctor_def)
  have stepped: "uint32_increment 41 = Some 42" "uint32_decrement 41 = Some 40"
    by (simp_all add: uint32_increment_def uint32_decrement_def)
  show ?thesis
    using strong_type_increment_decrement [of "skill_increment OR skill_decrement"
        uint32_increment "strong_type_ctor 41" uint32_decrement] enabled
    by (simp add: held stepped)
qed

subsection \<open>Comparison\<close>

text \<open>
  Claim C5, amended. With the comparable skill, \<^verbatim>\<open>a == b\<close> is the underlying \<^verbatim>\<open>==\<close> of
  the two held values and \<^verbatim>\<open>a != b\<close> is its negation. Equality of strong types is reflexive
  at \<open>a\<close> where the underlying equality is reflexive at the held value, and symmetric at \<open>a\<close>,
  \<open>b\<close> where the underlying equality is symmetric at the held values.
\<close>

theorem strong_type_equality:
  assumes "requires_clause skills op_equal"
  shows "operator_equal skills v_equal a b = Inr (v_equal (get a) (get b))
   \<and> operator_not_equal skills v_equal a b = Inr (\<not> v_equal (get a) (get b))
   \<and> (v_equal (get a) (get a) \<longrightarrow> operator_equal skills v_equal a a = Inr True)
   \<and> (v_equal (get a) (get b) = v_equal (get b) (get a) \<longrightarrow>
        operator_equal skills v_equal a b = operator_equal skills v_equal b a)"
proof -
  from assms have "requires_clause skills op_not_equal"
    by (simp add: requires_clause_def)
  with assms show ?thesis
    by (simp add: operator_equal_def operator_not_equal_def gated_enabled)
qed

text \<open>
  Claim C5 as stated asks for reflexivity at all values of the underlying type. The strong type
  adds no reflexivity of its own: over \<^verbatim>\<open>double\<close>, with the comparable skill, an object
  holding not-a-number is not equal to itself.
\<close>

theorem strong_type_equality_not_reflexive:
  "requires_clause skill_comparable op_equal
   \<and> operator_equal skill_comparable double_equal
       (strong_type_ctor double_nan) (strong_type_ctor double_nan) = Inr False"
  by (simp add: operator_equal_def gated_def requires_clause_iff_bit skill_comparable_def
      bit_push_bit_iff get_simp strong_type_ctor_def)

theorem strong_type_equality_witness:
  "requires_clause skill_comparable op_equal
   \<and> operator_equal skill_comparable uint32_equal (strong_type_ctor 7) (strong_type_ctor 7)
       = Inr True
   \<and> operator_not_equal skill_comparable uint32_equal (strong_type_ctor 7) (strong_type_ctor 7)
       = Inr False
   \<and> operator_equal skill_comparable uint32_equal (strong_type_ctor 7) (strong_type_ctor 9)
       = operator_equal skill_comparable uint32_equal (strong_type_ctor 9) (strong_type_ctor 7)"
proof -
  have enabled: "requires_clause skill_comparable op_equal"
    by (simp add: requires_clause_iff_bit skill_comparable_def bit_push_bit_iff)
  have held: "get (strong_type_ctor (7 :: uint32_t)) = 7"
    "get (strong_type_ctor (9 :: uint32_t)) = 9"
    by (simp_all add: get_simp strong_type_ctor_def)
  have same: "uint32_equal 7 7"
    by (simp add: uint32_equal_def)
  have swapped: "uint32_equal (get (strong_type_ctor 7)) (get (strong_type_ctor 9))
      = uint32_equal (get (strong_type_ctor 9)) (get (strong_type_ctor 7))"
    by (simp add: held uint32_equal_def)
  note at_7_7 = strong_type_equality [OF enabled, of uint32_equal
      "strong_type_ctor 7" "strong_type_ctor 7"]
  note at_7_9 = strong_type_equality [OF enabled, of uint32_equal
      "strong_type_ctor 7" "strong_type_ctor 9"]
  have "operator_equal skill_comparable uint32_equal (strong_type_ctor 7) (strong_type_ctor 7)
      = Inr True"
    using at_7_7 same by (simp add: held)
  moreover have "operator_not_equal skill_comparable uint32_equal (strong_type_ctor 7)
      (strong_type_ctor 7) = Inr False"
    using at_7_7 same by (simp add: held)
  moreover have "operator_equal skill_comparable uint32_equal (strong_type_ctor 7)
      (strong_type_ctor 9)
    = operator_equal skill_comparable uint32_equal (strong_type_ctor 9) (strong_type_ctor 7)"
    using at_7_9 swapped by blast
  ultimately show ?thesis
    using enabled by blast
qed

subsection \<open>Binary operators\<close>

lemma return_derived_Some:
  "return_derived this (Some r) = Inr (this, derived_t r)"
  by (simp add: return_derived_def)

text \<open>
  Claim C6. For each binary arithmetic, bitwise, shift and logical operator whose skill is
  present: where the underlying operator yields a value for the two held values, the strong
  type's operator returns a new object holding that value (the truth value itself for the
  logical operators) and leaves the left operand as it was; the right operand is taken by
  const reference.
\<close>

theorem strong_type_binary_operators:
  "(requires_clause skills op_plus \<longrightarrow>
      (\<forall>r. v_plus (get a) (get b) = Some r \<longrightarrow>
         (\<exists>d. operator_plus skills v_plus a b = Inr (a, d) \<and> get d = r)))
   \<and> (requires_clause skills op_minus \<longrightarrow>
      (\<forall>r. v_minus (get a) (get b) = Some r \<longrightarrow>
         (\<exists>d. operator_minus skills v_minus a b = Inr (a, d) \<and> get d = r)))
   \<and> (requires_clause skills op_times \<longrightarrow>
      (\<forall>r. v_times (get a) (get b) = Some r \<longrightarrow>
         (\<exists>d. operator_times skills v_times a b = Inr (a, d) \<and> get d = r)))
   \<and> (requires_clause skills op_divide \<longrightarrow>
      (\<forall>r. v_divide (get a) (get b) = Some r \<longrightarrow>
         (\<exists>d. operator_divide skills v_divide a b = Inr (a, d) \<and> get d = r)))
   \<and> (requires_clause skills op_modulo \<longrightarrow>
      (\<forall>r. v_modulo (get a) (get b) = Some r \<longrightarrow>
         (\<exists>d. operator_modulo skills v_modulo a b = Inr (a, d) \<and> get d = r)))
   \<and> (requires_clause skills op_bit_and \<longrightarrow>
      (\<forall>r. v_bit_and (get a) (get b) = Some r \<longrightarrow>
         (\<exists>d. operator_bit_and skills v_bit_and a b = Inr (a, d) \<and> get d = r)))
   \<and> (requires_clause skills op_bit_or \<longrightarrow>
      (\<forall>r. v_bit_or (get a) (get b) = Some r \<longrightarrow>
         (\<exists>d. operator_bit_or skills v_bit_or a b = Inr (a, d) \<and> get d = r)))
   \<and> (requires_clause skills op_bit_xor \<longrightarrow>
      (\<forall>r. v_bit_xor (get a) (get b) = Some r \<longrightarrow>
         (\<exists>d. operator_bit_xor skills v_bit_xor a b = Inr (a, d) \<and> get d = r)))
   \<and> (requires_clause skills op_lshift \<longrightarrow>
      (\<forall>r. v_lshift (get a) (get b) = Some r \<longrightarrow>
         (\<exists>d. operator_lshift skills v_lshift a b = Inr (a, d) \<and> get d = r)))
   \<and> (requires_clause skills op_rshift \<longrightarrow>
      (\<forall>r. v_rshift (get a) (get b) = Some r \<longrightarrow>
         (\<exists>d. operator_rshift skills v_rshift a b = Inr (a, d) \<and> get d = r)))
   \<and> (requires_clause skills op_lshift_integral \<longrightarrow>
      (\<forall>r. v_lshift_integral (get a) shift = Some r \<longrightarrow>
         (\<exists>d. operator_lshift_integral skills v_lshift_integral a shift = Inr (a, d)
            \<and> get d = r)))
   \<and> (requires_clause skills op_rshift_integral \<longrightarrow>
      (\<forall>r. v_rshift_integral (get a) shift = Some r \<longrightarrow>
         (\<exists>d. operator_rshift_integral skills v_rshift_integral a shift = Inr (a, d)
            \<and> get d = r)))
   \<and> (requires_clause skills op_logical_and \<longrightarrow>
      operator_logical_and skills v_logical_and a b = Inr (a, v_logical_and (get a) (get b)))
   \<and> (requires_clause skills op_logical_or \<longrightarrow>
      operator_logical_or skills v_logical_or a b = Inr (a, v_logical_or (get a) (get b)))"
  by (simp add: operator_plus_def operator_minus_def operator_times_def operator_divide_def
      operator_modulo_def operator_bit_and_def operator_bit_or_def operator_bit_xor_def
      operator_lshift_def operator_rshift_def operator_lshift_integral_def
      operator_rshift_integral_def operator_logical_and_def operator_logical_or_def
      gated_enabled return_derived_Some get_derived_t)

theorem strong_type_binary_operators_witness:
  "requires_clause all_skills op_plus
   \<and> requires_clause all_skills op_minus
   \<and> requires_clause all_skills op_times
   \<and> requires_clause all_skills op_divide
   \<and> requires_clause all_skills op_modulo
   \<and> requires_clause all_skills op_bit_and
   \<and> requires_clause all_skills op_bit_or
   \<and> requires_clause all_skills op_bit_xor
   \<and> requires_clause all_skills op_lshift
   \<and> requires_clause all_skills op_rshift
   \<and> requires_clause all_skills op_lshift_integral
   \<and> requires_clause all_skills op_rshift_integral
   \<and> requires_clause all_skills op_logical_and
   \<and> requires_clause all_skills op_logical_or
   \<and> (\<exists>d. operator_plus all_skills uint32_plus twelve five = Inr (twelve, d) \<and> get d = 17)
   \<and> (\<exists>d. operator_minus all_skills uint32_minus twelve five = Inr (twelve, d) \<and> get d = 7)
   \<and> (\<exists>d. operator_times all_skills uint32_times twelve five = Inr (twelve, d) \<and> get d = 60)
   \<and> (\<exists>d. operator_divide all_skills uint32_divide twelve five = Inr (twelve, d) \<and> get d = 2)
   \<and> (\<exists>d. operator_modulo all_skills uint32_modulo twelve five = Inr (twelve, d) \<and> get d = 2)
   \<and> (\<exists>d. operator_bit_and all_skills uint32_bit_and twelve five = Inr (twelve, d) \<and> get d = 4)
   \<and> (\<exists>d. operator_bit_or all_skills uint32_bit_or twelve five = Inr (twelve, d) \<and> get d = 13)
   \<and> (\<exists>d. operator_bit_xor all_skills uint32_bit_xor twelve five = Inr (twelve, d) \<and> get d = 9)
   \<and> (\<exists>d. operator_lshift all_skills uint32_lshift twelve five = Inr (twelve, d) \<and> get d = 384)
   \<and> (\<exists>d. operator_rshift all_skills uint32_rshift twelve five = Inr (twelve, d) \<and> get d = 0)
   \<and> (\<exists>d. operator_lshift_integral all_skills uint32_lshift_integral twelve 2
          = Inr (twelve, d) \<and> get d = 48)
   \<and> (\<exists>d. operator_rshift_integral all_skills uint32_rshift_integral twelve 2
          = Inr (twelve, d) \<and> get d = 3)
   \<and> operator_logical_and all_skills uint32_logical_and twelve five = Inr (twelve, True)
   \<and> operator_logical_or all_skills uint32_logical_or twelve five = Inr (twelve, True)"
proof -
  have held: "get twelve = 12" "get five = 5"
    by (simp_all add: get_simp twelve_def five_def strong_type_ctor_def)
  show ?thesis
    using strong_type_binary_operators [where skills=all_skills and a=twelve and b=five
        and shift=2 and v_plus=uint32_plus and v_minus=uint32_minus and v_times=uint32_times
        and v_divide=uint32_divide and v_modulo=uint32_modulo and v_bit_and=uint32_bit_and
        and v_bit_or=uint32_bit_or and v_bit_xor=uint32_bit_xor and v_lshift=uint32_lshift
        and v_rshift=uint32_rshift and v_lshift_integral=uint32_lshift_integral
        and v_rshift_integral=uint32_rshift_integral and v_logical_and=uint32_logical_and
        and v_logical_or=uint32_logical_or]
    by (simp add: requires_clause_all_skills held uint32_plus_def uint32_minus_def
        uint32_times_def uint32_divide_def uint32_modulo_def uint32_bit_and_def
        uint32_bit_or_def uint32_bit_xor_def uint32_lshift_def uint32_rshift_def
        uint32_lshift_integral_def uint32_rshift_integral_def uint32_logical_and_def
        uint32_logical_or_def)
qed

subsection \<open>Unary operators and conversion\<close>

text \<open>
  Bitwise not and logical not return a new value and leave the operand as it was; the explicit
  conversion yields the held value.
\<close>

lemma strong_type_unary_operators:
  "requires_clause skills op_bit_not \<Longrightarrow> v_bit_not (get a) = Some r \<Longrightarrow>
     operator_bit_not skills v_bit_not a = Inr (a, derived_t r)"
  "requires_clause skills op_logical_not \<Longrightarrow>
     operator_logical_not skills v_logical_not a = Inr (a, v_logical_not (get a))"
  "requires_clause skills op_convert \<Longrightarrow> operator_value_t skills a = Inr (get a)"
  by (simp_all add: operator_bit_not_def operator_logical_not_def operator_value_t_def
      gated_enabled return_derived_Some)

section \<open>Properties of the tag list\<close>

declare index_of_loop.simps [simp del]
declare no_duplicate_inner.simps [simp del]
declare no_duplicate_outer.simps [simp del]

lemma index_of_loop_absent:
  "\<forall>j. i \<le> j \<and> j < length as_array \<longrightarrow> as_array ! j \<noteq> f \<Longrightarrow>
   index_of_loop as_array f i = npos"
proof (induction as_array f i rule: index_of_loop.induct)
  case (1 as_array f i)
  show ?case
  proof (cases "i < length as_array")
    case True
    with "1.prems" have "as_array ! i \<noteq> f" by simp
    moreover from "1.IH" [OF True this] "1.prems"
    have "index_of_loop as_array f (Suc i) = npos" by simp
    ultimately show ?thesis
      using True by (simp add: index_of_loop.simps [of as_array f i])
  next
    case False
    then show ?thesis by (simp add: index_of_loop.simps [of as_array f i])
  qed
qed

lemma index_of_loop_present:
  "i \<le> k \<Longrightarrow> k < length as_array \<Longrightarrow> as_array ! k = f \<Longrightarrow>
   \<forall>j. i \<le> j \<and> j < k \<longrightarrow> as_array ! j \<noteq> f \<Longrightarrow>
   index_of_loop as_array f i = k"
proof (induction as_array f i rule: index_of_loop.induct)
  case (1 as_array f i)
  from "1.prems" have in_range: "i < length as_array" by simp
  show ?case
  proof (cases "i = k")
    case True
    with "1.prems" in_range show ?thesis
      by (subst index_of_loop.simps) simp
  next
    case False
    with "1.prems" have differs: "as_array ! i \<noteq> f" and "Suc i \<le> k" by simp_all
    with "1.IH" [OF in_range differs] "1.prems"
    have "index_of_loop as_array f (Suc i) = k" by simp
    with in_range differs show ?thesis
      by (simp add: index_of_loop.simps [of as_array f i])
  qed
qed

lemma first_occurrence:
  assumes "f \<in> set fs"
  obtains k where "k < length fs" "fs ! k = f" "\<forall>j<k. fs ! j \<noteq> f"
proof -
  define k where "k = (LEAST k. k < length fs \<and> fs ! k = f)"
  from assms have ex: "\<exists>n. n < length fs \<and> fs ! n = f"
    by (simp add: in_set_conv_nth)
  have "k < length fs \<and> fs ! k = f"
    unfolding k_def using ex by (rule LeastI_ex)
  moreover have "\<forall>j<k. fs ! j \<noteq> f"
  proof (intro allI impI)
    fix j assume "j < k"
    then have "\<not> (j < length fs \<and> fs ! j = f)"
      unfolding k_def by (rule not_less_Least)
    moreover from \<open>j < k\<close> \<open>k < length fs \<and> fs ! k = f\<close> have "j < length fs" by simp
    ultimately show "fs ! j \<noteq> f" by simp
  qed
  ultimately show thesis using that by blast
qed

lemma index_of_present:
  assumes "f \<in> set fs"
  shows "index_of fs f < length fs \<and> fs ! index_of fs f = f
    \<and> (\<forall>j<index_of fs f. fs ! j \<noteq> f)"
proof -
  from assms obtain k where k: "k < length fs" "fs ! k = f" "\<forall>j<k. fs ! j \<noteq> f"
    by (rule first_occurrence)
  then have "index_of fs f = k"
    unfolding index_of_def by (intro index_of_loop_present) simp_all
  with k show ?thesis by simp
qed

lemma index_of_absent: "f \<notin> set fs \<Longrightarrow> index_of fs f = npos"
  unfolding index_of_def by (rule index_of_loop_absent) (simp add: in_set_conv_nth)

lemma contains_iff_member:
  assumes "length fs \<le> npos"
  shows "contains fs f \<longleftrightarrow> f \<in> set fs"
proof (cases "f \<in> set fs")
  case True
  then have "index_of fs f < length fs" by (simp add: index_of_present)
  with assms have "index_of fs f \<noteq> npos" by simp
  with True show ?thesis by (simp add: contains_def)
next
  case False
  then show ?thesis by (simp add: contains_def index_of_absent)
qed

text \<open>
  Claim C2. For a tag list (of a length that fits \<^verbatim>\<open>size_t\<close>) and a tag \<open>f\<close>: when \<open>f\<close> is
  in the list, \<open>index_of\<close> is the position of its first occurrence; when it is not, \<open>index_of\<close>
  is \<open>npos\<close>, which is no valid position of the list; and \<open>contains\<close> holds exactly when
  \<open>index_of\<close> is not \<open>npos\<close>, that is, exactly when \<open>f\<close> is in the list. Both functions
  take the tag list and the tag only.
\<close>

theorem fields_index_of_contains:
  assumes "length fs \<le> npos"
  shows "(f \<in> set fs \<longrightarrow>
            index_of fs f < length fs \<and> fs ! index_of fs f = f
            \<and> (\<forall>j<index_of fs f. fs ! j \<noteq> f))
    \<and> (f \<notin> set fs \<longrightarrow> index_of fs f = npos)
    \<and> \<not> npos < length fs
    \<and> (contains fs f \<longleftrightarrow> index_of fs f \<noteq> npos)
    \<and> (contains fs f \<longleftrightarrow> f \<in> set fs)"
proof -
  have by_definition: "contains fs f \<longleftrightarrow> index_of fs f \<noteq> npos"
    by (simp add: contains_def)
  moreover have "contains fs f \<longleftrightarrow> f \<in> set fs"
    using assms by (rule contains_iff_member)
  moreover have "f \<in> set fs \<longrightarrow>
      index_of fs f < length fs \<and> fs ! index_of fs f = f \<and> (\<forall>j<index_of fs f. fs ! j \<noteq> f)"
    by (simp add: index_of_present)
  moreover have "f \<notin> set fs \<longrightarrow> index_of fs f = npos"
    by (simp add: index_of_absent)
  moreover from assms have "\<not> npos < length fs"
    by simp
  ultimately show ?thesis
    by blast
qed

lemma npos_value: "npos = 18446744073709551615"
  by (simp add: npos_def)

theorem fields_index_of_contains_witness:
  "length [field_seq, field_id, field_qual] \<le> npos
   \<and> field_id \<in> set [field_seq, field_id, field_qual]
   \<and> index_of [field_seq, field_id, field_qual] field_id = 1
   \<and> contains [field_seq, field_id, field_qual] field_id
   \<and> field_offset \<notin> set [field_seq, field_id, field_qual]
   \<and> index_of [field_seq, field_id, field_qual] field_offset = npos
   \<and> \<not> contains [field_seq, field_id, field_qual] field_offset"
proof -
  let ?fs = "[field_seq, field_id, field_qual]"
  have small: "length ?fs \<le> npos"
    by (simp add: npos_value)
  note present = fields_index_of_contains [OF small, of field_id]
  note absent = fields_index_of_contains [OF small, of field_offset]
  from present have at: "index_of ?fs field_id < 3" "?fs ! index_of ?fs field_id = field_id"
    "\<forall>j<index_of ?fs field_id. ?fs ! j \<noteq> field_id"
    by simp_all
  have "index_of ?fs field_id = 1"
  proof -
    from at(1) consider "index_of ?fs field_id = 0" | "index_of ?fs field_id = 1"
      | "index_of ?fs field_id = 2" by linarith
    then show ?thesis using at(2) by cases simp_all
  qed
  with present absent small show ?thesis by simp
qed

subsection \<open>The static assertion\<close>

lemma no_duplicate_inner_iff:
  "no_duplicate_inner as_array i j \<longleftrightarrow>
     (\<forall>k. j \<le> k \<and> k < length as_array \<longrightarrow> as_array ! i \<noteq> as_array ! k)"
proof (induction as_array i j rule: no_duplicate_inner.induct)
  case (1 as_array i j)
  show ?case
  proof (cases "j < length as_array")
    case False
    then show ?thesis by (subst no_duplicate_inner.simps) auto
  next
    case in_range: True
    show ?thesis
    proof (cases "as_array ! i = as_array ! j")
      case True
      with in_range show ?thesis
        by (subst no_duplicate_inner.simps) auto
    next
      case False
      have "(\<forall>k. j \<le> k \<and> k < length as_array \<longrightarrow> as_array ! i \<noteq> as_array ! k)
        \<longleftrightarrow> (\<forall>k. Suc j \<le> k \<and> k < length as_array \<longrightarrow> as_array ! i \<noteq> as_array ! k)"
        using False by (metis Suc_leI le_neq_implies_less Suc_leD)
      with "1.IH" [OF in_range False] in_range False show ?thesis
        by (subst no_duplicate_inner.simps) simp
    qed
  qed
qed

lemma no_duplicate_outer_iff:
  "no_duplicate_outer as_array i \<longleftrightarrow>
     (\<forall>a b. i \<le> a \<and> a < b \<and> b < length as_array \<longrightarrow> as_array ! a \<noteq> as_array ! b)"
proof (induction as_array i rule: no_duplicate_outer.induct)
  case (1 as_array i)
  show ?case
  proof (cases "i < length as_array")
    case False
    then show ?thesis by (subst no_duplicate_outer.simps) auto
  next
    case in_range: True
    show ?thesis
    proof (cases "no_duplicate_inner as_array i (i + 1)")
      case False
      then obtain k where "i < k" "k < length as_array" "as_array ! i = as_array ! k"
        unfolding no_duplicate_inner_iff by (metis Suc_eq_plus1 Suc_le_eq)
      then have "\<not> (\<forall>a b. i \<le> a \<and> a < b \<and> b < length as_array
          \<longrightarrow> as_array ! a \<noteq> as_array ! b)"
        by blast
      with in_range False show ?thesis
        by (subst no_duplicate_outer.simps) simp
    next
      case True
      then have row: "\<forall>k. i < k \<and> k < length as_array \<longrightarrow> as_array ! i \<noteq> as_array ! k"
        by (simp add: no_duplicate_inner_iff Suc_le_eq)
      have "(\<forall>a b. i \<le> a \<and> a < b \<and> b < length as_array \<longrightarrow> as_array ! a \<noteq> as_array ! b)
        \<longleftrightarrow> (\<forall>a b. Suc i \<le> a \<and> a < b \<and> b < length as_array
              \<longrightarrow> as_array ! a \<noteq> as_array ! b)"
        using row by (metis Suc_leI le_neq_implies_less Suc_leD)
      with "1.IH" [OF in_range True] in_range True show ?thesis
        by (subst no_duplicate_outer.simps) simp
    qed
  qed
qed

lemma no_duplicate_outer_distinct: "no_duplicate_outer fs 0 \<longleftrightarrow> distinct fs"
proof -
  have "distinct fs \<longleftrightarrow> (\<forall>a b. a < b \<and> b < length fs \<longrightarrow> fs ! a \<noteq> fs ! b)"
  proof
    assume "distinct fs"
    then show "\<forall>a b. a < b \<and> b < length fs \<longrightarrow> fs ! a \<noteq> fs ! b"
      by (auto simp: nth_eq_iff_index_eq)
  next
    assume ordered: "\<forall>a b. a < b \<and> b < length fs \<longrightarrow> fs ! a \<noteq> fs ! b"
    show "distinct fs"
      unfolding distinct_conv_nth
    proof (intro allI impI)
      fix i j assume "i < length fs" "j < length fs" "i \<noteq> j"
      then consider "i < j" | "j < i" by linarith
      then show "fs ! i \<noteq> fs ! j"
        using ordered \<open>i < length fs\<close> \<open>j < length fs\<close> by cases metis+
    qed
  qed
  then show ?thesis
    by (simp add: no_duplicate_outer_iff)
qed

text \<open>
  Claim C8. The predicate of the static assertion of a tag list holds if and only if no tag
  occurs twice in the list: a list with a duplicate is rejected where it is defined, a list of
  distinct tags is accepted.
\<close>

theorem fields_static_assert_iff_distinct: "fields_static_assert fs \<longleftrightarrow> distinct fs"
  by (simp add: fields_static_assert_def no_duplicate_outer_distinct)

theorem fields_static_assert_iff_distinct_witness:
  "fields_static_assert [field_seq, field_id, field_qual]
   \<and> \<not> fields_static_assert [field_seq, field_id, field_seq]"
  using fields_static_assert_iff_distinct [of "[field_seq, field_id, field_qual]"]
    fields_static_assert_iff_distinct [of "[field_seq, field_id, field_seq]"]
  by simp

text \<open>
  There are 33 fields, so a tag list that passes the static assertion has at most 33 tags:
  the bound on the length that the lemmas on \<open>index_of\<close> and \<open>contains\<close> ask for holds of
  every tag list that can be defined.
\<close>

lemma field_UNIV:
  "(UNIV :: field set) = set
    [field_seq, field_id, field_qual, field_offset, field_bpp, field_structure,
     field_structured_seq, field_energy, field_react, field_react_err, field_comment,
     field_alignment, field_ref_id, field_ref_seq, field_ref_offset, field_header_ptr,
     field_flag, field_mate, field_mapq, field_cigar, field_tags, field_bit_score, field_evalue,
     field_user_defined_0, field_user_defined_1, field_user_defined_2, field_user_defined_3,
     field_user_defined_4, field_user_defined_5, field_user_defined_6, field_user_defined_7,
     field_user_defined_8, field_user_defined_9]"
proof -
  have "f \<in> set
    [field_seq, field_id, field_qual, field_offset, field_bpp, field_structure,
     field_structured_seq, field_energy, field_react, field_react_err, field_comment,
     field_alignment, field_ref_id, field_ref_seq, field_ref_offset, field_header_ptr,
     field_flag, field_mate, field_mapq, field_cigar, field_tags, field_bit_score, field_evalue,
     field_user_defined_0, field_user_defined_1, field_user_defined_2, field_user_defined_3,
     field_user_defined_4, field_user_defined_5, field_user_defined_6, field_user_defined_7,
     field_user_defined_8, field_user_defined_9]" for f
    by (cases f) simp_all
  then show ?thesis by blast
qed

lemma distinct_fields_length:
  assumes "distinct (fs :: field list)"
  shows "length fs \<le> 33"
proof -
  from assms have "length fs = card (set fs)"
    by (simp add: distinct_card)
  also have "\<dots> \<le> card (UNIV :: field set)"
    by (rule card_mono [OF _ subset_UNIV]) (simp add: field_UNIV)
  also have "\<dots> \<le> 33"
    unfolding field_UNIV by (rule order_trans [OF card_length]) simp
  finally show ?thesis .
qed

lemma accepted_tag_list_fits:
  "fields_static_assert fs \<Longrightarrow> length fs \<le> npos"
  using distinct_fields_length [of fs]
  by (simp add: fields_static_assert_def no_duplicate_outer_distinct npos_value)

section \<open>Properties of the record\<close>

subsection \<open>Clearing\<close>

lemma expander_length:
  "length ts = length vs \<Longrightarrow> length (expander ts vs) = length vs"
  by (induction ts vs rule: list_induct2) simp_all

lemma expander_nth:
  "length ts = length vs \<Longrightarrow> i < length vs \<Longrightarrow>
   expander ts vs ! i = clear_element (ts ! i) (vs ! i)"
proof (induction ts vs arbitrary: i rule: list_induct2)
  case Nil
  then show ?case by simp
next
  case (Cons t ts v vs)
  then show ?case by (cases i) simp_all
qed

lemma clear_length: "length ts = length vs \<Longrightarrow> length (clear ts vs) = length vs"
  by (simp add: clear_def expander_length)

lemma clear_nth:
  "length ts = length vs \<Longrightarrow> i < length vs \<Longrightarrow>
   clear ts vs ! i = snd (clear_element (ts ! i) (vs ! i))"
  by (simp add: clear_def expander_length expander_nth)

lemma clear_overloads_nth:
  "length ts = length vs \<Longrightarrow> i < length vs \<Longrightarrow>
   clear_overloads ts vs ! i = fst (clear_element (ts ! i) (vs ! i))"
  by (simp add: clear_overloads_def expander_length expander_nth)

text \<open>
  Claim C3. \<^verbatim>\<open>clear()\<close> keeps the arity of the record and resets every element in place:
  an element whose type has a member \<^verbatim>\<open>clear()\<close> becomes what that member makes of it, and
  any other element becomes the default value of its type. On a record of a vector holding
  three elements and a nonzero integer, the vector is empty and the integer is zero afterwards.
\<close>

theorem record_clear_resets:
  assumes "length field_types = length this"
  shows "length (clear field_types this) = length this
    \<and> (\<forall>i<length this. clear field_types this ! i =
          (case field_types ! i of
             with_clear v_clear \<Rightarrow> v_clear (this ! i)
           | without_clear v_default \<Rightarrow> v_default))
    \<and> clear [vector_type, int_type] [container [1, 2, 3], scalar 7]
        = [container [], scalar 0]"
proof -
  have "clear [vector_type, int_type] [container [1, 2, 3], scalar 7]
      = [container [], scalar 0]"
    by (simp add: clear_def vector_type_def int_type_def)
  moreover have "\<forall>i<length this. clear field_types this ! i =
      (case field_types ! i of
         with_clear v_clear \<Rightarrow> v_clear (this ! i)
       | without_clear v_default \<Rightarrow> v_default)"
    using assms by (simp add: clear_nth split: element_type.split)
  ultimately show ?thesis
    using assms by (simp add: clear_length)
qed

theorem record_clear_resets_witness:
  "length [vector_type, int_type] = length [container [1, 2, 3], scalar 7]
   \<and> length (clear [vector_type, int_type] [container [1, 2, 3], scalar 7]) = 2
   \<and> clear [vector_type, int_type] [container [1, 2, 3], scalar 7] ! 0 = container []
   \<and> clear [vector_type, int_type] [container [1, 2, 3], scalar 7] ! 1 = scalar 0"
proof -
  have same_length: "length [vector_type, int_type] = length [container [1, 2, 3], scalar 7]"
    by simp
  note cleared = record_clear_resets [OF same_length]
  note element = cleared [THEN conjunct2, THEN conjunct1, rule_format]
  have "clear [vector_type, int_type] [container [1, 2, 3], scalar 7] ! 0 = container []"
    using element [of 0] by (simp add: vector_type_def)
  moreover have "clear [vector_type, int_type] [container [1, 2, 3], scalar 7] ! 1 = scalar 0"
    using element [of 1] by (simp add: int_type_def)
  moreover have "length (clear [vector_type, int_type] [container [1, 2, 3], scalar 7]) = 2"
    using cleared by simp
  ultimately show ?thesis by simp
qed

text \<open>
  Claim C10. For each element of a record, \<^verbatim>\<open>clear()\<close> runs the overload that calls the
  member \<^verbatim>\<open>clear()\<close> exactly when the element's type has that member, and the overload that
  assigns the default value exactly when it has not; with the member, the element afterwards is
  what the member makes of it, whatever the default value of the type would be.
\<close>

theorem record_clear_dispatch:
  assumes "length field_types = length this" and "i < length this"
  shows "(clear_overloads field_types this ! i = member_clear
            \<longleftrightarrow> (\<exists>v_clear. field_types ! i = with_clear v_clear))
    \<and> (clear_overloads field_types this ! i = assign_default
            \<longleftrightarrow> (\<exists>v_default. field_types ! i = without_clear v_default))
    \<and> (\<forall>v_clear. field_types ! i = with_clear v_clear \<longrightarrow>
          clear field_types this ! i = v_clear (this ! i))"
  using assms
  by (cases "field_types ! i") (simp_all add: clear_nth clear_overloads_nth)

theorem record_clear_dispatch_witness:
  "length [counting_buffer_type, int_type] = length [counting_buffer 2 [1, 2], scalar 7]
   \<and> (0 :: nat) < length [counting_buffer 2 [1, 2], scalar 7]
   \<and> clear_overloads [counting_buffer_type, int_type] [counting_buffer 2 [1, 2], scalar 7] ! 0
       = member_clear
   \<and> clear [counting_buffer_type, int_type] [counting_buffer 2 [1, 2], scalar 7] ! 0
       = counting_buffer 3 []
   \<and> counting_buffer 3 [] \<noteq> counting_buffer_default
   \<and> clear_overloads [counting_buffer_type, int_type] [counting_buffer 2 [1, 2], scalar 7] ! 1
       = assign_default"
proof -
  let ?ts = "[counting_buffer_type, int_type]"
  let ?vs = "[counting_buffer 2 [1, 2], scalar 7]"
  have same_length: "length ?ts = length ?vs" by simp
  have first: "(0 :: nat) < length ?vs" and second: "(1 :: nat) < length ?vs" by simp_all
  note at_0 = record_clear_dispatch [OF same_length first]
  note at_1 = record_clear_dispatch [OF same_length second]
  have "clear_overloads ?ts ?vs ! 0 = member_clear"
    using at_0 by (simp add: counting_buffer_type_def)
  moreover have "clear ?ts ?vs ! 0 = counting_buffer 3 []"
    using at_0 by (simp add: counting_buffer_type_def numeral_3_eq_3)
  moreover have "clear_overloads ?ts ?vs ! 1 = assign_default"
    using at_1 by (simp add: int_type_def)
  moreover have "counting_buffer 3 [] \<noteq> counting_buffer_default"
    by (simp add: counting_buffer_default_def)
  ultimately show ?thesis by simp
qed

subsection \<open>Access by tag\<close>

lemma index_of_eq_imp_same:
  "f \<in> set fs \<Longrightarrow> g \<in> set fs \<Longrightarrow> index_of fs f = index_of fs g \<Longrightarrow> f = g"
  by (metis index_of_present)

lemma get_impl_member:
  assumes "length field_ids \<le> npos" "length r = length field_ids" "f \<in> set field_ids"
  shows "get_impl field_ids f r = Inr (r ! index_of field_ids f)"
  using assms by (simp add: get_impl_def std_get_def contains_iff_member index_of_present)

lemma get_impl_assign_member:
  assumes "length field_ids \<le> npos" "length r = length field_ids" "f \<in> set field_ids"
  shows "get_impl_assign field_ids f v r = Inr (r[index_of field_ids f := v])"
  using assms by (simp add: get_impl_assign_def contains_iff_member index_of_present)

lemma write_fields_positions:
  assumes "length field_ids \<le> npos"
  shows "length r = length field_ids \<Longrightarrow> distinct (map fst ws) \<Longrightarrow>
    fst ` set ws \<subseteq> set field_ids \<Longrightarrow>
    \<exists>r'. write_fields field_ids ws r = Inr r' \<and> length r' = length r
      \<and> (\<forall>(f, v)\<in>set ws. r' ! index_of field_ids f = v)
      \<and> (\<forall>k. k \<notin> index_of field_ids ` fst ` set ws \<longrightarrow> r' ! k = r ! k)"
proof (induction ws arbitrary: r)
  case Nil
  then show ?case by simp
next
  case (Cons w ws)
  obtain f v where w: "w = (f, v)" by (cases w)
  let ?r1 = "r[index_of field_ids f := v]"
  from Cons.prems w have member: "f \<in> set field_ids" and fresh: "f \<notin> fst ` set ws"
    and rest: "distinct (map fst ws)" "fst ` set ws \<subseteq> set field_ids"
    by auto
  from assms Cons.prems(1) member
  have step: "get_impl_assign field_ids f v r = Inr ?r1"
    by (rule get_impl_assign_member)
  from Cons.prems(1) have "length ?r1 = length field_ids" by simp
  from Cons.IH [OF this rest]
  obtain r' where r': "write_fields field_ids ws ?r1 = Inr r'" "length r' = length ?r1"
    "\<forall>(g, u)\<in>set ws. r' ! index_of field_ids g = u"
    "\<forall>k. k \<notin> index_of field_ids ` fst ` set ws \<longrightarrow> r' ! k = ?r1 ! k"
    by blast
  have "index_of field_ids f \<notin> index_of field_ids ` fst ` set ws"
  proof
    assume "index_of field_ids f \<in> index_of field_ids ` fst ` set ws"
    then obtain g where "g \<in> fst ` set ws" "index_of field_ids f = index_of field_ids g"
      by blast
    with member rest(2) have "f = g"
      by (meson index_of_eq_imp_same subsetD)
    with fresh \<open>g \<in> fst ` set ws\<close> show False by simp
  qed
  with r'(4) have "r' ! index_of field_ids f = ?r1 ! index_of field_ids f" by blast
  also from member Cons.prems(1) have "\<dots> = v"
    by (simp add: index_of_present)
  finally have written: "r' ! index_of field_ids f = v" .
  have untouched: "\<forall>k. k \<notin> index_of field_ids ` fst ` set (w # ws) \<longrightarrow> r' ! k = r ! k"
    using r'(4) w by auto
  from step r'(1) w have "write_fields field_ids (w # ws) r = Inr r'" by simp
  moreover from r'(2) have "length r' = length r" by simp
  moreover from written r'(3) w have "\<forall>(g, u)\<in>set (w # ws). r' ! index_of field_ids g = u"
    by simp
  ultimately show ?case using untouched by blast
qed

text \<open>
  Claim C7. In a record whose tag list has as many tags as the record has elements, writing
  one value to each of a set of fields by tag succeeds, and reading each of these fields by
  tag afterwards gives the value written to it: both accesses go through \<open>index_of\<close> to the
  same position of the tuple, which lies within the tuple.
\<close>

theorem record_write_read_roundtrip:
  assumes "record_static_assert field_types field_ids"
    and "length this = length field_types"
    and "length field_ids \<le> npos"
    and "distinct (map fst ws)"
    and "fst ` set ws \<subseteq> set field_ids"
  shows "\<exists>r. write_fields field_ids ws this = Inr r
    \<and> (\<forall>(f, v)\<in>set ws. get_impl field_ids f r = Inr v
          \<and> index_of field_ids f < length r \<and> r ! index_of field_ids f = v)"
proof -
  from assms(1,2) have arity: "length this = length field_ids"
    by (simp add: record_static_assert_def)
  from write_fields_positions [OF assms(3) arity assms(4,5)]
  obtain r where r: "write_fields field_ids ws this = Inr r" "length r = length this"
    "\<forall>(f, v)\<in>set ws. r ! index_of field_ids f = v"
    by blast
  have "get_impl field_ids f r = Inr v \<and> index_of field_ids f < length r
      \<and> r ! index_of field_ids f = v" if "(f, v) \<in> set ws" for f v
  proof -
    from that assms(5) have member: "f \<in> set field_ids" by force
    from r(2) arity have "length r = length field_ids" by simp
    with assms(3) member have "get_impl field_ids f r = Inr (r ! index_of field_ids f)"
      by (simp add: get_impl_member)
    moreover from r(3) that have "r ! index_of field_ids f = v" by auto
    moreover from member \<open>length r = length field_ids\<close> have "index_of field_ids f < length r"
      by (simp add: index_of_present)
    ultimately show ?thesis by simp
  qed
  with r(1) show ?thesis by blast
qed

theorem record_write_read_roundtrip_witness:
  "record_static_assert [vector_type, vector_type, int_type] [field_seq, field_id, field_offset]
   \<and> length [container [], container [], scalar 0] = length [vector_type, vector_type, int_type]
   \<and> length [field_seq, field_id, field_offset] \<le> npos
   \<and> distinct (map fst [(field_id, container [9]), (field_offset, scalar 4),
        (field_seq, container [1, 2, 3])])
   \<and> fst ` set [(field_id, container [9]), (field_offset, scalar 4),
        (field_seq, container [1, 2, 3])] \<subseteq> set [field_seq, field_id, field_offset]
   \<and> (\<exists>r. write_fields [field_seq, field_id, field_offset]
          [(field_id, container [9]), (field_offset, scalar 4), (field_seq, container [1, 2, 3])]
          [container [], container [], scalar 0] = Inr r
        \<and> get_impl [field_seq, field_id, field_offset] field_seq r = Inr (container [1, 2, 3])
        \<and> get_impl [field_seq, field_id, field_offset] field_id r = Inr (container [9])
        \<and> get_impl [field_seq, field_id, field_offset] field_offset r = Inr (scalar 4))"
proof -
  let ?ids = "[field_seq, field_id, field_offset]"
  let ?ts = "[vector_type, vector_type, int_type]"
  let ?ws = "[(field_id, container [9]), (field_offset, scalar 4),
    (field_seq, container [1, 2, 3])]"
  let ?rec0 = "[container [], container [], scalar 0]"
  have h1: "record_static_assert ?ts ?ids" by (simp add: record_static_assert_def)
  have h2: "length ?rec0 = length ?ts" by simp
  have h3: "length ?ids \<le> npos" by (simp add: npos_value)
  have h4: "distinct (map fst ?ws)" by simp
  have h5: "fst ` set ?ws \<subseteq> set ?ids" by simp
  from record_write_read_roundtrip [OF h1 h2 h3 h4 h5]
  have "\<exists>r. write_fields ?ids ?ws ?rec0 = Inr r
        \<and> get_impl ?ids field_seq r = Inr (container [1, 2, 3])
        \<and> get_impl ?ids field_id r = Inr (container [9])
        \<and> get_impl ?ids field_offset r = Inr (scalar 4)"
    by auto
  with h1 h2 h3 h4 h5 show ?thesis by blast
qed

end
